theory Spec2Isabelle
  imports Main "HOL-Library.Word" "HOL-Library.Sublist"
begin

section \<open>JavaScript values\<close>

text \<open>
  A JavaScript string is a sequence of UTF-16 code units; \<open>.length\<close> counts code units,
  which is what zod's \<open>min\<close>/\<open>max\<close> string checks compare. \<open>js\<close> turns an ASCII
  literal of the source into such a string.
\<close>

type_synonym jstring = "16 word list"

definition js :: "string \<Rightarrow> jstring" where
  "js s = map of_char s"

text \<open>
  \<open>String.prototype.trim\<close> strips the ECMAScript WhiteSpace and LineTerminator code
  points from both ends.
\<close>

definition is_ws :: "16 word \<Rightarrow> bool" where
  "is_ws c \<longleftrightarrow>
     c = 0x0009 \<or> c = 0x000A \<or> c = 0x000B \<or> c = 0x000C \<or> c = 0x000D \<or> c = 0x0020 \<or>
     c = 0x00A0 \<or> c = 0x1680 \<or> (0x2000 \<le> c \<and> c \<le> 0x200A) \<or> c = 0x2028 \<or> c = 0x2029 \<or>
     c = 0x202F \<or> c = 0x205F \<or> c = 0x3000 \<or> c = 0xFEFF"

definition trim :: "jstring \<Rightarrow> jstring" where
  "trim s = rev (dropWhile is_ws (rev (dropWhile is_ws s)))"

text \<open>\<open>s.includes(t)\<close>: \<open>t\<close> occurs in \<open>s\<close> as a contiguous run.\<close>

fun includes_str :: "jstring \<Rightarrow> jstring \<Rightarrow> bool" where
  "includes_str [] t = (t = [])"
| "includes_str (c # s) t = (prefix t (c # s) \<or> includes_str s t)"

text \<open>
  The values the route inspects dynamically: parsed JSON and caught exceptions
  (\<open>unknown\<close> in the source). An object is its list of own properties.
\<close>

datatype jsval =
    JUndefined
  | JNull
  | JBool bool
  | JNum int
  | JStr jstring
  | JArr "jsval list"
  | JObj "(jstring \<times> jsval) list"

text \<open>Property read \<open>v.k\<close> on a value already known to be an object or array.\<close>

definition get :: "jsval \<Rightarrow> jstring \<Rightarrow> jsval" where
  "get v k = (case v of
      JObj kvs \<Rightarrow> (case map_of kvs k of Some x \<Rightarrow> x | None \<Rightarrow> JUndefined)
    | _ \<Rightarrow> JUndefined)"

text \<open>\<open>!v\<close> is true exactly on the falsy values.\<close>

definition falsy :: "jsval \<Rightarrow> bool" where
  "falsy v = (case v of
      JUndefined \<Rightarrow> True
    | JNull \<Rightarrow> True
    | JBool b \<Rightarrow> \<not> b
    | JNum n \<Rightarrow> n = 0
    | JStr s \<Rightarrow> s = []
    | _ \<Rightarrow> False)"

text \<open>\<open>typeof v === "object"\<close> (true of \<open>null\<close> as well).\<close>

definition typeof_object :: "jsval \<Rightarrow> bool" where
  "typeof_object v = (case v of JNull \<Rightarrow> True | JArr _ \<Rightarrow> True | JObj _ \<Rightarrow> True | _ \<Rightarrow> False)"

section \<open>The zod schemas\<close>

text \<open>
  \<open>schema.parse\<close> either returns the parsed value or throws a \<open>ZodError\<close> carrying every
  issue found; the route only ever reads an issue's \<open>code\<close>.
\<close>

datatype issue_code = invalid_type | too_small | too_big

type_synonym 'a parsed = "issue_code list + 'a"

fun both :: "'a parsed \<Rightarrow> 'b parsed \<Rightarrow> ('a \<times> 'b) parsed" where
  "both (Inr a) (Inr b) = Inr (a, b)"
| "both (Inl i) (Inr b) = Inl i"
| "both (Inr a) (Inl j) = Inl j"
| "both (Inl i) (Inl j) = Inl (i @ j)"

fun collect :: "'a parsed list \<Rightarrow> 'a list parsed" where
  "collect [] = Inr []"
| "collect (r # rs) = map_sum id (\<lambda>(x, xs). x # xs) (both r (collect rs))"

definition z_string :: "jsval \<Rightarrow> jstring parsed" where
  "z_string v = (case v of JStr s \<Rightarrow> Inr s | _ \<Rightarrow> Inl [invalid_type])"

definition z_array :: "(jsval \<Rightarrow> 'a parsed) \<Rightarrow> jsval \<Rightarrow> 'a list parsed" where
  "z_array elem v = (case v of JArr xs \<Rightarrow> collect (map elem xs) | _ \<Rightarrow> Inl [invalid_type])"

text \<open>\<open>z.string().min(1).max(MAX_INPUT_CHARS)\<close>: both length checks run.\<close>

definition text_schema :: "nat \<Rightarrow> jsval \<Rightarrow> jstring parsed" where
  "text_schema max_chars v = (case v of
      JStr s \<Rightarrow>
        (let issues = (if length s < 1 then [too_small] else []) @
                      (if length s > max_chars then [too_big] else [])
         in if issues = [] then Inr s else Inl issues)
    | _ \<Rightarrow> Inl [invalid_type])"

text \<open>\<open>z.string().max(10_000).optional()\<close>.\<close>

definition notes_schema :: "jsval \<Rightarrow> jstring option parsed" where
  "notes_schema v = (case v of
      JUndefined \<Rightarrow> Inr None
    | JStr s \<Rightarrow> if length s > 10000 then Inl [too_big] else Inr (Some s)
    | _ \<Rightarrow> Inl [invalid_type])"

definition transformRequestSchema :: "nat \<Rightarrow> jsval \<Rightarrow> (jstring \<times> jstring option) parsed" where
  "transformRequestSchema max_chars v = (case v of
      JObj _ \<Rightarrow> both (text_schema max_chars (get v (js ''text''))) (notes_schema (get v (js ''notes'')))
    | _ \<Rightarrow> Inl [invalid_type])"

definition transformFileNotesSchema :: "jsval \<Rightarrow> jstring option parsed" where
  "transformFileNotesSchema v = (case v of
      JObj _ \<Rightarrow> notes_schema (get v (js ''notes''))
    | _ \<Rightarrow> Inl [invalid_type])"

record response_section =
  heading :: jstring
  bullets :: "jstring list"

record next_action =
  action :: jstring
  first_step :: jstring

record transform_response =
  title :: jstring
  summary :: jstring
  sections :: "response_section list"
  next_actions :: "next_action list"

definition section_schema :: "jsval \<Rightarrow> response_section parsed" where
  "section_schema v = (case v of
      JObj _ \<Rightarrow>
        map_sum id (\<lambda>(h, b). \<lparr>heading = h, bullets = b\<rparr>)
          (both (z_string (get v (js ''heading''))) (z_array z_string (get v (js ''bullets''))))
    | _ \<Rightarrow> Inl [invalid_type])"

definition next_action_schema :: "jsval \<Rightarrow> next_action parsed" where
  "next_action_schema v = (case v of
      JObj _ \<Rightarrow>
        map_sum id (\<lambda>(a, f). \<lparr>action = a, first_step = f\<rparr>)
          (both (z_string (get v (js ''action''))) (z_string (get v (js ''first_step''))))
    | _ \<Rightarrow> Inl [invalid_type])"

definition transformResponseSchema :: "jsval \<Rightarrow> transform_response parsed" where
  "transformResponseSchema v = (case v of
      JObj _ \<Rightarrow>
        map_sum id
          (\<lambda>((t, s), (secs, acts)). \<lparr>title = t, summary = s, sections = secs, next_actions = acts\<rparr>)
          (both
            (both (z_string (get v (js ''title''))) (z_string (get v (js ''summary''))))
            (both (z_array section_schema (get v (js ''sections'')))
                  (z_array next_action_schema (get v (js ''next_actions'')))))
    | _ \<Rightarrow> Inl [invalid_type])"

text \<open>\<open>shouldApplyNotesRewritePass\<close>: \<open>Boolean(notes && notes.trim().length > 0)\<close>.\<close>

definition shouldApplyNotesRewritePass :: "jstring option \<Rightarrow> bool" where
  "shouldApplyNotesRewritePass notes = (case notes of
      None \<Rightarrow> False
    | Some n \<Rightarrow> n \<noteq> [] \<and> length (trim n) > 0)"

text \<open>
  The sanitising step of the route: the validated object is copied with \<open>next_actions\<close>
  replaced by its filtered list.
\<close>

definition sanitized :: "transform_response \<Rightarrow> transform_response" where
  "sanitized validated =
     validated\<lparr>next_actions :=
       filter (\<lambda>a. length (trim (action a)) > 0 \<and> length (trim (first_step a)) > 0)
         (next_actions validated)\<rparr>"

section \<open>The route handler\<close>

text \<open>
  The \<open>POST\<close> handler of \<open>/api/transform\<close> in its notes-aware version (JSON and multipart
  requests, two passes), with the helpers it calls.
\<close>

subsection \<open>Requests, configuration and the provider\<close>

record js_file =
  file_size :: nat
  file_name :: jstring
  file_type :: jstring

text \<open>What \<open>form.get(name)\<close> returns: a string, a \<open>File\<close>, or \<open>null\<close> (\<open>None\<close> below).\<close>

datatype form_value = FormString jstring | FormFile js_file

record form =
  form_file :: "form_value option"
  form_notes :: "form_value option"

text \<open>An awaited call either throws some value or returns.\<close>

datatype 'a outcome = Throws jsval | Returns 'a

text \<open>
  The parts of the \<open>NextRequest\<close> the handler reads: the \<open>content-type\<close> header, the
  result of \<open>request.formData()\<close>, and the result of \<open>request.json()\<close> (\<open>None\<close> when it
  throws; the handler ignores what was thrown).
\<close>

record request =
  content_type :: "jstring option"
  formData :: "form outcome"
  json :: "jsval option"

text \<open>
  \<open>process.env\<close> as the module reads it, with the two numeric limits already converted,
  and the two built-ins whose result depends on the runtime: number formatting in the
  default locale and \<open>JSON.parse\<close> (\<open>None\<close> when it throws).
\<close>

record env =
  OPENAI_API_KEY :: "jstring option"
  MAX_INPUT_CHARS :: nat
  MAX_FILE_BYTES :: nat
  toLocaleString :: "nat \<Rightarrow> jstring"
  JSON_parse :: "jstring \<Rightarrow> jsval option"

text \<open>
  The provider, seen from the handler: what each of the three calls does when it is made.
  For the two \<open>responses.create\<close> calls the value returned is \<open>output_text ?? null\<close>.
  The prompt texts are not modelled; every statement below holds for all outcomes.
\<close>

record upstream =
  files_create :: "unit outcome"
  first_response :: "jstring option outcome"
  rewrite_response :: "jstring option outcome"

datatype call = FilesCreate | FirstResponse | RewriteResponse

datatype body = ErrorBody jstring | OkBody transform_response

text \<open>
  A \<open>NextResponse.json\<close>: status, JSON body, and the \<open>x-received-notes-length\<close> header
  when it is set (the number whose decimal rendering is sent).
\<close>

datatype response = Response (status_of: int) (body_of: body) (x_received_notes_length: "nat option")

datatype thrown = ZodError "issue_code list" | Thrown jsval

datatype 'a step = Return response | Throw thrown | Continue 'a

subsection \<open>normalizeOpenAIError\<close>

text \<open>
  \<open>typeof v === "string" && v.trim()\<close>: the two falsy results, \<open>false\<close> and the empty
  string, are both the empty string here, since only truthiness is read.
\<close>

definition trimmed_string :: "jsval \<Rightarrow> jstring" where
  "trimmed_string v = (case v of JStr s \<Rightarrow> trim s | _ \<Rightarrow> [])"

definition fallback_message :: jstring where
  "fallback_message = js ''Failed to analyze input. Please try again.''"

definition normalizeOpenAIError :: "jsval \<Rightarrow> int \<times> jstring" where
  "normalizeOpenAIError error =
     (if falsy error \<or> \<not> typeof_object error then (500, fallback_message)
      else
        let status = (case get error (js ''status'') of JNum n \<Rightarrow> n | _ \<Rightarrow> 500);
            err_error = get error (js ''error'');
            nestedMessage =
              (if \<not> falsy err_error \<and> typeof_object err_error \<and> err_error \<noteq> JNull
               then get err_error (js ''message'') else JUndefined);
            message =
              (if trimmed_string nestedMessage \<noteq> [] then trimmed_string nestedMessage
               else if trimmed_string (get error (js ''message'')) \<noteq> []
               then trimmed_string (get error (js ''message''))
               else fallback_message)
        in (status, message))"

subsection \<open>POST\<close>

text \<open>The multipart branch, up to \<open>rawModelText\<close>; the calls made are logged in order.\<close>

definition multipart_branch ::
  "env \<Rightarrow> upstream \<Rightarrow> request \<Rightarrow> (jstring option \<times> jstring option) step \<times> call list" where
  "multipart_branch env up req = (case formData req of
      Throws e \<Rightarrow> (Throw (Thrown e), [])
    | Returns form \<Rightarrow>
        (case (case form_notes form of
                 Some (FormString notesValue) \<Rightarrow>
                   transformFileNotesSchema (JObj [(js ''notes'', JStr notesValue)])
               | _ \<Rightarrow> Inr None) of
           Inl issues \<Rightarrow> (Throw (ZodError issues), [])
         | Inr notes \<Rightarrow>
             (case form_file form of
                Some (FormFile file) \<Rightarrow>
                  if file_size file > MAX_FILE_BYTES env then
                    (Return (Response 413
                       (ErrorBody (js ''File is too large. Maximum is '' @
                                   toLocaleString env (MAX_FILE_BYTES env) @ js '' bytes.''))
                       None), [])
                  else
                    (case files_create up of
                       Throws e \<Rightarrow> (Throw (Thrown e), [FilesCreate])
                     | Returns uploaded \<Rightarrow>
                         (case first_response up of
                            Throws e \<Rightarrow> (Throw (Thrown e), [FilesCreate, FirstResponse])
                          | Returns output_text \<Rightarrow>
                              (Continue (notes, output_text), [FilesCreate, FirstResponse])))
              | _ \<Rightarrow>
                  (Return (Response 400
                     (ErrorBody (js ''Missing file upload (expected form field 'file').''))
                     None), []))))"

text \<open>The JSON branch, with its own \<open>try\<close>/\<open>catch\<close> around reading and validating the body.\<close>

definition json_branch ::
  "env \<Rightarrow> upstream \<Rightarrow> request \<Rightarrow> (jstring option \<times> jstring option) step \<times> call list" where
  "json_branch env up req = (case json req of
      None \<Rightarrow> (Return (Response 400 (ErrorBody (js ''Invalid request body'')) None), [])
    | Some body \<Rightarrow>
        (case transformRequestSchema (MAX_INPUT_CHARS env) body of
           Inl issues \<Rightarrow>
             (let tooBig = list_ex (\<lambda>issue. issue = too_big) issues
              in (Return (Response (if tooBig then 413 else 400)
                    (ErrorBody
                       (if tooBig
                        then js ''Input text is too large. Maximum is '' @
                             toLocaleString env (MAX_INPUT_CHARS env) @ js '' characters.''
                        else js ''Invalid request format''))
                    None), []))
         | Inr (text, notes) \<Rightarrow>
             (case first_response up of
                Throws e \<Rightarrow> (Throw (Thrown e), [FirstResponse])
              | Returns output_text \<Rightarrow> (Continue (notes, output_text), [FirstResponse]))))"

text \<open>
  The second pass: the call is awaited outside the inner \<open>try\<close>; only \<open>JSON.parse\<close> and
  the schema check of its output are inside it.
\<close>

definition rewrite_pass :: "env \<Rightarrow> upstream \<Rightarrow> transform_response \<Rightarrow> thrown + transform_response" where
  "rewrite_pass env up validated = (case rewrite_response up of
      Throws e \<Rightarrow> Inl (Thrown e)
    | Returns rewrittenText \<Rightarrow>
        Inr (case rewrittenText of
               None \<Rightarrow> validated
             | Some t \<Rightarrow>
                 if t = [] then validated
                 else (case JSON_parse env t of
                         None \<Rightarrow> validated
                       | Some rewrittenParsed \<Rightarrow>
                           (case transformResponseSchema rewrittenParsed of
                              Inl issues \<Rightarrow> validated
                            | Inr rewritten \<Rightarrow> rewritten))))"

definition deliver :: "transform_response \<Rightarrow> jstring option \<Rightarrow> response" where
  "deliver validated notesForRequest =
     Response 200 (OkBody (sanitized validated))
       (Some (length (case notesForRequest of None \<Rightarrow> [] | Some n \<Rightarrow> n)))"

definition no_response_error :: jsval where
  "no_response_error = JObj [(js ''message'', JStr (js ''No response from OpenAI''))]"

text \<open>From the check of \<open>rawModelText\<close> to the successful response.\<close>

definition after_model ::
  "env \<Rightarrow> upstream \<Rightarrow> jstring option \<Rightarrow> jstring option \<Rightarrow> (thrown + response) \<times> call list" where
  "after_model env up notesForRequest rawModelText = (case rawModelText of
      None \<Rightarrow> (Inl (Thrown no_response_error), [])
    | Some raw \<Rightarrow>
        if raw = [] then (Inl (Thrown no_response_error), [])
        else (case JSON_parse env raw of
           None \<Rightarrow>
             (Inr (Response 502
                (ErrorBody (js ''Model returned an invalid response format. Please try again.''))
                None), [])
         | Some parsed \<Rightarrow>
             (case transformResponseSchema parsed of
                Inl issues \<Rightarrow> (Inl (ZodError issues), [])
              | Inr validated \<Rightarrow>
                  if shouldApplyNotesRewritePass notesForRequest then
                    (case rewrite_pass env up validated of
                       Inl e \<Rightarrow> (Inl e, [RewriteResponse])
                     | Inr final \<Rightarrow> (Inr (deliver final notesForRequest), [RewriteResponse]))
                  else (Inr (deliver validated notesForRequest), []))))"

text \<open>The body of the outer \<open>try\<close>.\<close>

definition POST_try :: "env \<Rightarrow> upstream \<Rightarrow> request \<Rightarrow> (thrown + response) \<times> call list" where
  "POST_try env up req =
     (if (case OPENAI_API_KEY env of None \<Rightarrow> True | Some k \<Rightarrow> k = []) then
        (Inr (Response 500
           (ErrorBody (js ''Server is missing OPENAI_API_KEY configuration.'')) None), [])
      else
        let contentType = (case content_type req of None \<Rightarrow> [] | Some c \<Rightarrow> c);
            (st, calls) =
              (if includes_str contentType (js ''multipart/form-data'')
               then multipart_branch env up req
               else json_branch env up req)
        in case st of
             Return r \<Rightarrow> (Inr r, calls)
           | Throw e \<Rightarrow> (Inl e, calls)
           | Continue (notesForRequest, rawModelText) \<Rightarrow>
               (let (r, calls') = after_model env up notesForRequest rawModelText
                in (r, calls @ calls')))"

text \<open>
  \<open>NextResponse.json(body, {status})\<close> constructs a \<open>Response\<close> with a body, which the
  platform refuses for some statuses: a status outside 200..599 throws a \<open>RangeError\<close>, and
  a null-body status (204, 205 or 304) throws a \<open>TypeError\<close>. With the literal statuses of
  the handler (200, 400, 413, 500, 502) it always returns, so those responses are written as
  values above; in the outer \<open>catch\<close> the status comes from the thrown value.
\<close>

datatype init_error = RangeError | TypeError

definition NextResponse_json :: "body \<Rightarrow> int \<Rightarrow> nat option \<Rightarrow> init_error + response" where
  "NextResponse_json b status hdr =
     (if status < 200 \<or> 599 < status then Inl RangeError
      else if status = 204 \<or> status = 205 \<or> status = 304 then Inl TypeError
      else Inr (Response status b hdr))"

text \<open>
  The handler: the outer \<open>catch\<close> turns whatever was thrown into a response. An exception
  thrown inside the \<open>catch\<close> block itself leaves the handler (\<open>Inl\<close>).
\<close>

definition POST ::
  "env \<Rightarrow> upstream \<Rightarrow> request \<Rightarrow> (init_error + response) \<times> call list" where
  "POST env up req = (case POST_try env up req of
      (Inr r, calls) \<Rightarrow> (Inr r, calls)
    | (Inl (ZodError issues), calls) \<Rightarrow>
        (NextResponse_json
           (ErrorBody (js ''Model returned an unexpected response shape. Please try again.''))
           502 None, calls)
    | (Inl (Thrown error), calls) \<Rightarrow>
        (let normalized = normalizeOpenAIError error
         in (NextResponse_json (ErrorBody (snd normalized)) (fst normalized) None, calls)))"

section \<open>Vocabulary of the specification\<close>

text \<open>A string is blank when it is empty or consists of whitespace only.\<close>

definition blank :: "jstring \<Rightarrow> bool" where
  "blank s = list_all is_ws s"

text \<open>
  The TransformResponse shape of the specification's data model: an object with exactly the
  properties \<open>title\<close> and \<open>summary\<close> (strings), \<open>sections\<close> (an array of objects with
  exactly a string \<open>heading\<close> and a \<open>bullets\<close> array of strings) and \<open>next_actions\<close> (an array
  of objects with exactly the strings \<open>action\<close> and \<open>first_step\<close>).
  \<open>conforms_exactly\<close> is that shape; \<open>has_required_fields\<close> asks for the same properties
  with the same types and nesting but allows further properties beside them.
\<close>

definition is_string :: "jsval \<Rightarrow> bool" where
  "is_string v = (case v of JStr s \<Rightarrow> True | _ \<Rightarrow> False)"

definition is_object :: "jsval \<Rightarrow> bool" where
  "is_object v = (case v of JObj kvs \<Rightarrow> True | _ \<Rightarrow> False)"

definition is_array_of :: "(jsval \<Rightarrow> bool) \<Rightarrow> jsval \<Rightarrow> bool" where
  "is_array_of P v = (case v of JArr xs \<Rightarrow> list_all P xs | _ \<Rightarrow> False)"

definition keys_exactly :: "jsval \<Rightarrow> jstring list \<Rightarrow> bool" where
  "keys_exactly v ks = (case v of JObj kvs \<Rightarrow> set (map fst kvs) = set ks | _ \<Rightarrow> False)"

definition section_has_required_fields :: "jsval \<Rightarrow> bool" where
  "section_has_required_fields v \<longleftrightarrow>
     is_object v \<and> is_string (get v (js ''heading'')) \<and>
     is_array_of is_string (get v (js ''bullets''))"

definition next_action_has_required_fields :: "jsval \<Rightarrow> bool" where
  "next_action_has_required_fields v \<longleftrightarrow>
     is_object v \<and> is_string (get v (js ''action'')) \<and> is_string (get v (js ''first_step''))"

definition has_required_fields :: "jsval \<Rightarrow> bool" where
  "has_required_fields v \<longleftrightarrow>
     is_object v \<and> is_string (get v (js ''title'')) \<and> is_string (get v (js ''summary'')) \<and>
     is_array_of section_has_required_fields (get v (js ''sections'')) \<and>
     is_array_of next_action_has_required_fields (get v (js ''next_actions''))"

definition section_conforms_exactly :: "jsval \<Rightarrow> bool" where
  "section_conforms_exactly v \<longleftrightarrow>
     keys_exactly v [js ''heading'', js ''bullets''] \<and> is_string (get v (js ''heading'')) \<and>
     is_array_of is_string (get v (js ''bullets''))"

definition next_action_conforms_exactly :: "jsval \<Rightarrow> bool" where
  "next_action_conforms_exactly v \<longleftrightarrow>
     keys_exactly v [js ''action'', js ''first_step''] \<and>
     is_string (get v (js ''action'')) \<and> is_string (get v (js ''first_step''))"

definition conforms_exactly :: "jsval \<Rightarrow> bool" where
  "conforms_exactly v \<longleftrightarrow>
     keys_exactly v [js ''title'', js ''summary'', js ''sections'', js ''next_actions''] \<and>
     is_string (get v (js ''title'')) \<and> is_string (get v (js ''summary'')) \<and>
     is_array_of section_conforms_exactly (get v (js ''sections'')) \<and>
     is_array_of next_action_conforms_exactly (get v (js ''next_actions''))"

definition accepted :: "'a parsed \<Rightarrow> bool" where
  "accepted r = (case r of Inl issues \<Rightarrow> False | Inr x \<Rightarrow> True)"

text \<open>The notes a request carries, if any: the string form field or the string body property.\<close>

definition request_notes :: "request \<Rightarrow> jstring option" where
  "request_notes req =
     (if includes_str (case content_type req of None \<Rightarrow> [] | Some c \<Rightarrow> c)
           (js ''multipart/form-data'')
      then (case formData req of
              Returns f \<Rightarrow> (case form_notes f of Some (FormString n) \<Rightarrow> Some n | _ \<Rightarrow> None)
            | Throws e \<Rightarrow> None)
      else (case json req of
              Some b \<Rightarrow> (case get b (js ''notes'') of JStr n \<Rightarrow> Some n | _ \<Rightarrow> None)
            | None \<Rightarrow> None))"

text \<open>What a provider call threw, if it threw.\<close>

definition threw :: "upstream \<Rightarrow> call \<Rightarrow> jsval option" where
  "threw up c = (case c of
      FilesCreate \<Rightarrow> (case files_create up of Throws e \<Rightarrow> Some e | Returns u \<Rightarrow> None)
    | FirstResponse \<Rightarrow> (case first_response up of Throws e \<Rightarrow> Some e | Returns t \<Rightarrow> None)
    | RewriteResponse \<Rightarrow> (case rewrite_response up of Throws e \<Rightarrow> Some e | Returns t \<Rightarrow> None))"

text \<open>
  The decimal digits of a number, and the digits that occur in a message: a message that
  reports a number contains that number's digits in order, whatever the grouping.
\<close>

fun decimal :: "nat \<Rightarrow> jstring" where
  "decimal n = (if n < 10 then [of_nat (48 + n)]
                else decimal (n div 10) @ [of_nat (48 + n mod 10)])"

declare decimal.simps [simp del]

definition digits_in :: "jstring \<Rightarrow> jstring" where
  "digits_in msg = filter (\<lambda>c. 0x30 \<le> c \<and> c \<le> 0x39) msg"

definition reports_number :: "jstring \<Rightarrow> nat \<Rightarrow> bool" where
  "reports_number msg n = includes_str (digits_in msg) (decimal n)"

section \<open>A concrete runtime\<close>

text \<open>Number formatting in the \<open>en-US\<close> locale: digits in groups of three.\<close>

fun group3 :: "jstring \<Rightarrow> jstring" where
  "group3 (a # b # c # d # rest) = a # b # c # 0x2C # group3 (d # rest)"
| "group3 xs = xs"

definition en_US :: "nat \<Rightarrow> jstring" where
  "en_US n = rev (group3 (rev (decimal n)))"

text \<open>
  Two provider outputs and what \<open>JSON.parse\<close> makes of them: a complete document whose
  second next action has a blank first step, and the empty object.
\<close>

definition sample_text :: jstring where
  \<open>sample_text = js ''{"title":"Plan","summary":"Launch","sections":[],"next_actions":[{"action":"Review","first_step":"Email"},{"action":"Call","first_step":" "}]}''\<close>

definition sample_parsed :: jsval where
  "sample_parsed = JObj
     [(js ''title'', JStr (js ''Plan'')),
      (js ''summary'', JStr (js ''Launch'')),
      (js ''sections'', JArr []),
      (js ''next_actions'',
         JArr [JObj [(js ''action'', JStr (js ''Review'')), (js ''first_step'', JStr (js ''Email''))],
               JObj [(js ''action'', JStr (js ''Call'')), (js ''first_step'', JStr (js '' ''))]])]"

definition sample_validated :: transform_response where
  "sample_validated = \<lparr>title = js ''Plan'', summary = js ''Launch'', sections = [],
     next_actions = [\<lparr>action = js ''Review'', first_step = js ''Email''\<rparr>,
                     \<lparr>action = js ''Call'', first_step = js '' ''\<rparr>]\<rparr>"

text \<open>A third output: every required field, and a property the shape does not have.\<close>

definition extra_text :: jstring where
  \<open>extra_text = js ''{"title":"Plan","summary":"Launch","sections":[],"next_actions":[],"debug":true}''\<close>

definition extra_parsed :: jsval where
  "extra_parsed = JObj
     [(js ''title'', JStr (js ''Plan'')),
      (js ''summary'', JStr (js ''Launch'')),
      (js ''sections'', JArr []),
      (js ''next_actions'', JArr []),
      (js ''debug'', JBool True)]"

definition extra_validated :: transform_response where
  "extra_validated = \<lparr>title = js ''Plan'', summary = js ''Launch'', sections = [],
     next_actions = []\<rparr>"

definition sample_JSON_parse :: "jstring \<Rightarrow> jsval option" where
  "sample_JSON_parse t =
     (if t = sample_text then Some sample_parsed
      else if t = extra_text then Some extra_parsed
      else if t = js ''{}'' then Some (JObj [])
      else None)"

definition sample_env :: env where
  "sample_env = \<lparr>OPENAI_API_KEY = Some (js ''sk-test''), MAX_INPUT_CHARS = 100000,
     MAX_FILE_BYTES = 10 * 1024 * 1024, toLocaleString = en_US,
     JSON_parse = sample_JSON_parse\<rparr>"

definition json_request :: "jsval \<Rightarrow> request" where
  "json_request b = \<lparr>content_type = Some (js ''application/json''),
     formData = Throws JUndefined, json = Some b\<rparr>"

definition multipart_request :: "form \<Rightarrow> request" where
  "multipart_request f = \<lparr>content_type = Some (js ''multipart/form-data; boundary=x''),
     formData = Returns f, json = None\<rparr>"

definition sample_upstream :: upstream where
  "sample_upstream = \<lparr>files_create = Returns (), first_response = Returns (Some sample_text),
     rewrite_response = Returns (Some (js ''{}''))\<rparr>"

definition sample_body :: jsval where
  "sample_body = JObj [(js ''text'', JStr (js ''hello'')), (js ''notes'', JStr (js ''as a poem''))]"

definition hello_body :: jsval where
  "hello_body = JObj [(js ''text'', JStr (js ''hello''))]"

definition not_modified :: jsval where
  "not_modified = JObj [(js ''status'', JNum 304), (js ''message'', JStr (js ''Not Modified''))]"


definition sample_file :: js_file where
  "sample_file = \<lparr>file_size = 2048, file_name = js ''results.csv'', file_type = js ''text/csv''\<rparr>"

definition rate_limited :: jsval where
  "rate_limited = JObj [(js ''status'', JNum 429),
     (js ''error'', JObj [(js ''message'', JStr (js ''Rate limit reached''))])]"

definition long_notes :: jstring where
  "long_notes = replicate 10001 0x78"

section \<open>Strings and the sanitiser\<close>

lemmas POST_defs = POST_def POST_try_def multipart_branch_def json_branch_def after_model_def
  rewrite_pass_def

lemma dropWhile_all: "(\<forall>x\<in>set (dropWhile P xs). P x) \<longleftrightarrow> (\<forall>x\<in>set xs. P x)"
proof
  assume a: "\<forall>x\<in>set (dropWhile P xs). P x"
  have "dropWhile P xs = []"
  proof (rule ccontr)
    assume "dropWhile P xs \<noteq> []"
    then have "\<not> P (hd (dropWhile P xs))" and "hd (dropWhile P xs) \<in> set (dropWhile P xs)"
      by (simp_all add: hd_dropWhile)
    with a show False by blast
  qed
  then show "\<forall>x\<in>set xs. P x" by simp
next
  assume "\<forall>x\<in>set xs. P x"
  then show "\<forall>x\<in>set (dropWhile P xs). P x" by (meson set_dropWhileD)
qed

lemma trim_empty_iff: "trim s = [] \<longleftrightarrow> blank s"
  by (simp add: trim_def blank_def list_all_iff dropWhile_all)

lemma sanitized_next_actions:
  "next_actions (sanitized v) =
     filter (\<lambda>a. \<not> blank (action a) \<and> \<not> blank (first_step a)) (next_actions v)"
  by (simp add: sanitized_def trim_empty_iff)

lemma shouldApply_iff:
  "shouldApplyNotesRewritePass ns \<longleftrightarrow> (\<exists>n. ns = Some n \<and> \<not> blank n)"
  by (cases ns) (auto simp: shouldApplyNotesRewritePass_def trim_empty_iff blank_def)

section \<open>The schemas against the specified shape\<close>

lemma accepted_simps [simp]:
  "accepted (Inr x) = True" "accepted (Inl i) = False"
  by (simp_all add: accepted_def)

lemma accepted_both [simp]: "accepted (both a b) \<longleftrightarrow> accepted a \<and> accepted b"
  by (cases a; cases b) simp_all

lemma accepted_map_sum [simp]: "accepted (map_sum f g r) = accepted r"
  by (cases r) simp_all

lemma accepted_collect [simp]: "accepted (collect rs) = list_all accepted rs"
  by (induction rs) simp_all

lemma accepted_z_string [simp]: "accepted (z_string v) = is_string v"
  by (cases v) (simp_all add: z_string_def is_string_def)

lemma accepted_z_array [simp]: "accepted (z_array elem v) = is_array_of (\<lambda>x. accepted (elem x)) v"
  by (cases v) (simp_all add: z_array_def is_array_of_def list_all_iff)

lemma accepted_section_schema [simp]: "accepted (section_schema v) = section_has_required_fields v"
  by (cases v) (simp_all add: section_schema_def section_has_required_fields_def is_object_def)

lemma accepted_next_action_schema [simp]: "accepted (next_action_schema v) = next_action_has_required_fields v"
  by (cases v) (simp_all add: next_action_schema_def next_action_has_required_fields_def is_object_def)

lemma transformResponseSchema_conforms:
  "accepted (transformResponseSchema v) = has_required_fields v"
  by (cases v) (simp_all add: transformResponseSchema_def has_required_fields_def is_object_def)

lemma is_array_of_mono:
  "(\<And>x. P x \<Longrightarrow> Q x) \<Longrightarrow> is_array_of P v \<Longrightarrow> is_array_of Q v"
  by (cases v) (auto simp: is_array_of_def list_all_iff)

lemma keys_exactly_object: "keys_exactly v ks \<Longrightarrow> is_object v"
  by (cases v) (simp_all add: keys_exactly_def is_object_def)

lemma keys_exactly_member: "keys_exactly (JObj kvs) ks \<Longrightarrow> (k, x) \<in> set kvs \<Longrightarrow> k \<in> set ks"
  by (force simp: keys_exactly_def)

lemma conforms_exactly_has_required_fields:
  assumes "conforms_exactly v"
  shows "has_required_fields v"
proof -
  have sec: "section_has_required_fields x" if "section_conforms_exactly x" for x
    using that
    by (auto simp: section_conforms_exactly_def section_has_required_fields_def
        dest: keys_exactly_object)
  have act: "next_action_has_required_fields x" if "next_action_conforms_exactly x" for x
    using that
    by (auto simp: next_action_conforms_exactly_def next_action_has_required_fields_def
        dest: keys_exactly_object)
  from assms have "is_object v" and "is_string (get v (js ''title''))"
    and "is_string (get v (js ''summary''))"
    and s: "is_array_of section_conforms_exactly (get v (js ''sections''))"
    and a: "is_array_of next_action_conforms_exactly (get v (js ''next_actions''))"
    by (auto simp: conforms_exactly_def dest: keys_exactly_object)
  moreover from s have "is_array_of section_has_required_fields (get v (js ''sections''))"
    by (rule is_array_of_mono [rotated]) (rule sec)
  moreover from a have "is_array_of next_action_has_required_fields (get v (js ''next_actions''))"
    by (rule is_array_of_mono [rotated]) (rule act)
  ultimately show ?thesis by (simp add: has_required_fields_def)
qed

lemma NextResponse_json_returns:
  "NextResponse_json b st h = Inr r \<longleftrightarrow>
     r = Response st b h \<and> 200 \<le> st \<and> st \<le> 599 \<and> st \<noteq> 204 \<and> st \<noteq> 205 \<and> st \<noteq> 304"
  by (auto simp: NextResponse_json_def)

lemma NextResponse_json_502 [simp]: "NextResponse_json b 502 h = Inr (Response 502 b h)"
  by (simp add: NextResponse_json_def)

lemma snd_POST: "snd (POST env up req) = snd (POST_try env up req)"
  by (auto simp: POST_def Let_def split: prod.splits sum.splits thrown.splits)

lemma json_branch_first:
  assumes "json_branch env up req = (st, calls)" and "FirstResponse \<in> set calls"
    and "first_response up = Returns raw"
  shows "\<exists>ns. st = Continue (ns, raw)"
  using assms
  by (auto simp: json_branch_def Let_def split: option.splits sum.splits prod.splits)

lemma multipart_branch_first:
  assumes "multipart_branch env up req = (st, calls)" and "FirstResponse \<in> set calls"
    and "first_response up = Returns raw"
  shows "\<exists>ns. st = Continue (ns, raw)"
  using assms
  by (auto simp: multipart_branch_def
      split: option.splits sum.splits outcome.splits form_value.splits if_splits)

lemma after_model_calls: "set (snd (after_model env up ns raw)) \<subseteq> {RewriteResponse}"
  by (auto simp: after_model_def split: option.splits sum.splits)

lemma POST_try_unfold:
  assumes "\<not> (case OPENAI_API_KEY env of None \<Rightarrow> True | Some k \<Rightarrow> k = [])"
    and "(if includes_str (case content_type req of None \<Rightarrow> [] | Some c \<Rightarrow> c)
               (js ''multipart/form-data'')
          then multipart_branch env up req else json_branch env up req) = (st, calls)"
  shows "POST_try env up req = (case st of
            Return r \<Rightarrow> (Inr r, calls)
          | Throw e \<Rightarrow> (Inl e, calls)
          | Continue (ns, raw) \<Rightarrow>
              (fst (after_model env up ns raw), calls @ snd (after_model env up ns raw)))"
  using assms by (simp add: POST_try_def Let_def split: step.splits prod.splits)

lemma POST_try_no_key:
  assumes "case OPENAI_API_KEY env of None \<Rightarrow> True | Some k \<Rightarrow> k = []"
  shows "snd (POST_try env up req) = []"
  using assms by (simp add: POST_try_def)

section \<open>Paths through the handler\<close>

lemma notes_schema_Inr: "notes_schema v = Inr ns \<Longrightarrow> ns = (case v of JStr n \<Rightarrow> Some n | _ \<Rightarrow> None)"
  by (cases v) (auto simp: notes_schema_def split: if_splits)

lemma both_Inr: "both a b = Inr (x, y) \<Longrightarrow> a = Inr x \<and> b = Inr y"
  by (cases a; cases b) simp_all

lemma transformRequestSchema_Inr:
  assumes "transformRequestSchema m b = Inr (text, ns)"
  shows "ns = (case get b (js ''notes'') of JStr n \<Rightarrow> Some n | _ \<Rightarrow> None)"
proof (cases b)
  case (JObj kvs)
  with assms have "notes_schema (get b (js ''notes'')) = Inr ns"
    by (auto simp: transformRequestSchema_def dest: both_Inr)
  then show ?thesis by (rule notes_schema_Inr)
qed (use assms in \<open>simp_all add: transformRequestSchema_def\<close>)

lemma json_branch_continue:
  assumes "json_branch env up req = (Continue (ns, raw), calls)"
  shows "ns = (case json req of
              Some b \<Rightarrow> (case get b (js ''notes'') of JStr n \<Rightarrow> Some n | _ \<Rightarrow> None)
            | None \<Rightarrow> None) \<and> first_response up = Returns raw \<and> calls = [FirstResponse]"
  using assms
  by (auto simp: json_branch_def Let_def
      split: option.splits sum.splits prod.splits outcome.splits
      dest: transformRequestSchema_Inr)

lemma transformFileNotesSchema_Inr:
  "transformFileNotesSchema (JObj [(js ''notes'', JStr n)]) = Inr ns \<Longrightarrow> ns = Some n"
  by (auto simp: transformFileNotesSchema_def get_def dest: notes_schema_Inr)

lemma multipart_branch_continue:
  assumes "multipart_branch env up req = (Continue (ns, raw), calls)"
  shows "ns = (case formData req of
              Returns f \<Rightarrow> (case form_notes f of Some (FormString n) \<Rightarrow> Some n | _ \<Rightarrow> None)
            | Throws e \<Rightarrow> None) \<and> first_response up = Returns raw
         \<and> calls = [FilesCreate, FirstResponse]"
  using assms
  by (auto simp: multipart_branch_def
      split: option.splits sum.splits outcome.splits form_value.splits if_splits
      dest: transformFileNotesSchema_Inr)

lemma json_branch_return:
  "json_branch env up req = (Return r, calls) \<Longrightarrow> (\<exists>m. body_of r = ErrorBody m) \<and> calls = []"
  by (auto simp: json_branch_def Let_def split: option.splits sum.splits prod.splits outcome.splits)

lemma multipart_branch_return:
  "multipart_branch env up req = (Return r, calls) \<Longrightarrow> (\<exists>m. body_of r = ErrorBody m) \<and> calls = []"
  by (auto simp: multipart_branch_def
      split: option.splits sum.splits outcome.splits form_value.splits if_splits)

lemma json_branch_calls: "RewriteResponse \<notin> set (snd (json_branch env up req))"
  by (auto simp: json_branch_def Let_def split: option.splits sum.splits prod.splits outcome.splits)

lemma multipart_branch_calls: "RewriteResponse \<notin> set (snd (multipart_branch env up req))"
  by (auto simp: multipart_branch_def
      split: option.splits sum.splits outcome.splits form_value.splits if_splits)

text \<open>Every way through the outer try.\<close>

lemma POST_try_cases:
  obtains
    (no_key) "POST_try env up req =
       (Inr (Response 500 (ErrorBody (js ''Server is missing OPENAI_API_KEY configuration.'')) None), [])"
  | (rejected) r m where "POST_try env up req = (Inr r, [])" and "body_of r = ErrorBody m"
  | (thrown) e calls where "POST_try env up req = (Inl e, calls)"
      and "RewriteResponse \<notin> set calls"
      and "\<And>raw. FirstResponse \<in> set calls \<Longrightarrow> first_response up \<noteq> Returns raw"
  | (model) raw pre where "first_response up = Returns raw"
      and "POST_try env up req =
         (fst (after_model env up (request_notes req) raw),
          pre @ snd (after_model env up (request_notes req) raw))"
      and "RewriteResponse \<notin> set pre" and "FirstResponse \<in> set pre"
proof -
  let ?multi = "includes_str (case content_type req of None \<Rightarrow> [] | Some c \<Rightarrow> c)
               (js ''multipart/form-data'')"
  let ?b = "if ?multi then multipart_branch env up req else json_branch env up req"
  obtain st calls where b: "?b = (st, calls)" by (cases ?b)
  show thesis
  proof (cases "case OPENAI_API_KEY env of None \<Rightarrow> True | Some k \<Rightarrow> k = []")
    case True
    then show thesis using no_key by (simp add: POST_try_def)
  next
    case False
    note unfold = POST_try_unfold [OF False b]
    have nr: "RewriteResponse \<notin> set calls"
      using b json_branch_calls [of env up req] multipart_branch_calls [of env up req]
      by (auto split: if_splits)
    have ret: "(\<exists>m. body_of r = ErrorBody m) \<and> calls = []" if "st = Return r" for r
    proof (cases ?multi)
      case True
      with b that have "multipart_branch env up req = (Return r, calls)" by simp
      then show ?thesis by (rule multipart_branch_return)
    next
      case False
      with b that have "json_branch env up req = (Return r, calls)" by simp
      then show ?thesis by (rule json_branch_return)
    qed
    have cont: "ns = request_notes req \<and> first_response up = Returns raw \<and> FirstResponse \<in> set calls"
      if "st = Continue (ns, raw)" for ns raw
    proof (cases ?multi)
      case True
      with b that have "multipart_branch env up req = (Continue (ns, raw), calls)" by simp
      from multipart_branch_continue [OF this] True show ?thesis
        by (simp add: request_notes_def)
    next
      case False
      with b that have "json_branch env up req = (Continue (ns, raw), calls)" by simp
      from json_branch_continue [OF this] False show ?thesis
        by (simp add: request_notes_def)
    qed
    have first: "\<exists>ns. st = Continue (ns, raw)"
      if "FirstResponse \<in> set calls" and "first_response up = Returns raw" for raw
    proof (cases ?multi)
      case True
      with b have "multipart_branch env up req = (st, calls)" by simp
      then show ?thesis using that by (rule multipart_branch_first)
    next
      case False
      with b have "json_branch env up req = (st, calls)" by simp
      then show ?thesis using that by (rule json_branch_first)
    qed
    show thesis
    proof (cases st)
      case (Return r)
      from ret [OF Return] obtain m where "body_of r = ErrorBody m" and "calls = []" by blast
      moreover have "POST_try env up req = (Inr r, calls)" using unfold Return by simp
      ultimately show thesis using rejected by simp
    next
      case (Throw e)
      have "POST_try env up req = (Inl e, calls)" using unfold Throw by simp
      moreover have "first_response up \<noteq> Returns raw" if "FirstResponse \<in> set calls" for raw
        using first [OF that] Throw by auto
      ultimately show thesis using thrown nr by blast
    next
      case (Continue p)
      obtain ns raw where p: "p = (ns, raw)" by (cases p)
      from cont [of ns raw] Continue p
      have c: "ns = request_notes req" "first_response up = Returns raw" "FirstResponse \<in> set calls"
        by simp_all
      have "POST_try env up req =
         (fst (after_model env up (request_notes req) raw),
          calls @ snd (after_model env up (request_notes req) raw))"
        using unfold Continue p c(1) by simp
      then show thesis using model c(2,3) nr by blast
    qed
  qed
qed

lemma first_pass_returned:
  assumes "FirstResponse \<in> set (snd (POST_try env up req))"
    and "first_response up = Returns raw"
  obtains pre where
    "POST_try env up req =
       (fst (after_model env up (request_notes req) raw),
        pre @ snd (after_model env up (request_notes req) raw))"
    and "RewriteResponse \<notin> set pre"
proof (cases env up req rule: POST_try_cases)
  case no_key
  with assms(1) show ?thesis by simp
next
  case (rejected r m)
  with assms(1) show ?thesis by simp
next
  case (thrown e calls)
  with assms show ?thesis by simp
next
  case (model raw' pre)
  with assms(2) have "raw' = raw" by simp
  with model that show ?thesis by simp
qed

lemma validated_first_pass:
  assumes "t \<noteq> []" and "JSON_parse env t = Some parsed"
    and "transformResponseSchema parsed = Inr validated"
  shows "after_model env up ns (Some t) =
     (if shouldApplyNotesRewritePass ns
      then (case rewrite_pass env up validated of
              Inl e \<Rightarrow> (Inl e, [RewriteResponse])
            | Inr final \<Rightarrow> (Inr (deliver final ns), [RewriteResponse]))
      else (Inr (deliver validated ns), []))"
  using assms by (simp add: after_model_def)

lemma rewrite_pass_delivers:
  assumes "rewrite_pass env up v = Inr final"
  shows "final = v \<or>
    (\<exists>t parsed. rewrite_response up = Returns (Some t) \<and> JSON_parse env t = Some parsed \<and>
       transformResponseSchema parsed = Inr final)"
  using assms
  by (auto simp: rewrite_pass_def split: outcome.splits option.splits if_splits sum.splits)

lemma after_model_delivers:
  assumes "fst (after_model env up ns raw) = Inr (Response s (OkBody r) h)"
  shows "\<exists>t parsed validated.
           (raw = Some t \<or> rewrite_response up = Returns (Some t)) \<and>
           JSON_parse env t = Some parsed \<and>
           transformResponseSchema parsed = Inr validated \<and> r = sanitized validated"
  using assms
  by (auto simp: after_model_def deliver_def
      split: option.splits if_splits sum.splits dest!: rewrite_pass_delivers)

lemma POST_try_Inr:
  "fst (POST env up req) = Inr (Response s (OkBody r) h) \<Longrightarrow>
   fst (POST_try env up req) = Inr (Response s (OkBody r) h)"
  by (auto simp: POST_def Let_def NextResponse_json_def
      split: prod.splits sum.splits thrown.splits if_splits)

lemma POST_delivers:
  assumes "fst (POST env up req) = Inr (Response s (OkBody r) h)"
  shows "\<exists>t parsed validated.
           (first_response up = Returns (Some t) \<or> rewrite_response up = Returns (Some t)) \<and>
           JSON_parse env t = Some parsed \<and>
           transformResponseSchema parsed = Inr validated \<and> r = sanitized validated"
proof -
  note ok = POST_try_Inr [OF assms]
  show ?thesis
  proof (cases env up req rule: POST_try_cases)
    case no_key
    with ok show ?thesis by simp
  next
    case (rejected r' m)
    with ok show ?thesis by auto
  next
    case (thrown e calls)
    with ok show ?thesis by simp
  next
    case (model raw pre)
    with ok have "fst (after_model env up (request_notes req) raw) = Inr (Response s (OkBody r) h)"
      by simp
    from after_model_delivers [OF this] model(1) show ?thesis by auto
  qed
qed

lemma restyle_output_unusable:
  assumes "rewrite_response up = Returns out"
    and "out = None \<or> out = Some [] \<or>
         (\<exists>t. out = Some t \<and>
            (JSON_parse env t = None \<or>
             (\<exists>parsed. JSON_parse env t = Some parsed \<and> \<not> has_required_fields parsed)))"
  shows "rewrite_pass env up validated = Inr validated"
  using assms
  by (auto simp: rewrite_pass_def  simp flip: transformResponseSchema_conforms
      split: option.splits sum.splits)

lemma json_branch_threw:
  assumes "json_branch env up req = (st, calls)" and "c \<in> set calls" and "threw up c = Some e"
  shows "st = Throw (Thrown e)"
  using assms
  by (auto simp: json_branch_def threw_def Let_def split: option.splits sum.splits prod.splits outcome.splits)

lemma multipart_branch_threw:
  assumes "multipart_branch env up req = (st, calls)" and "c \<in> set calls" and "threw up c = Some e"
  shows "st = Throw (Thrown e)"
  using assms
  by (auto simp: multipart_branch_def threw_def
      split: option.splits sum.splits outcome.splits form_value.splits if_splits)

lemma after_model_threw:
  assumes "c \<in> set (snd (after_model env up ns raw))" and "threw up c = Some e"
  shows "fst (after_model env up ns raw) = Inl (Thrown e)"
  using assms
  by (auto simp: after_model_def rewrite_pass_def threw_def
      split: option.splits sum.splits outcome.splits if_splits)

lemma thrown_reaches_catch:
  assumes "c \<in> set (snd (POST_try env up req))" and "threw up c = Some e"
  shows "fst (POST_try env up req) = Inl (Thrown e)"
proof -
  let ?b = "if includes_str (case content_type req of None \<Rightarrow> [] | Some c \<Rightarrow> c)
               (js ''multipart/form-data'')
            then multipart_branch env up req else json_branch env up req"
  obtain st calls where b: "?b = (st, calls)" by (cases ?b)
  have key: "\<not> (case OPENAI_API_KEY env of None \<Rightarrow> True | Some k \<Rightarrow> k = [])"
    using assms(1) POST_try_no_key by fastforce
  note unfold = POST_try_unfold [OF key b]
  have br: "c \<in> set calls \<Longrightarrow> st = Throw (Thrown e)"
    using b assms(2) json_branch_threw multipart_branch_threw by (metis (full_types))
  show ?thesis
  proof (cases st)
    case (Return r)
    with br assms(1) unfold show ?thesis by auto
  next
    case (Throw x)
    with br assms(1) unfold show ?thesis by auto
  next
    case (Continue p)
    obtain ns raw where p: "p = (ns, raw)" by (cases p)
    with Continue br assms(1) unfold have "c \<in> set (snd (after_model env up ns raw))" by auto
    then show ?thesis using after_model_threw assms(2) unfold Continue p by simp
  qed
qed

lemma fallback_message_nonempty: "fallback_message \<noteq> []"
  by (simp add: fallback_message_def js_def)

lemma normalize_status:
  "fst (normalizeOpenAIError e) = (case get e (js ''status'') of JNum n \<Rightarrow> n | _ \<Rightarrow> 500)"
  by (cases e) (simp_all add: normalizeOpenAIError_def falsy_def typeof_object_def get_def Let_def)

lemma nested_message:
  "trimmed_string
     (if \<not> falsy x \<and> typeof_object x \<and> x \<noteq> JNull then get x k else JUndefined)
   = trimmed_string (get x k)"
  by (cases x) (simp_all add: falsy_def typeof_object_def get_def trimmed_string_def)

lemma normalize_message:
  "snd (normalizeOpenAIError e) \<noteq> [] \<and>
   snd (normalizeOpenAIError e) \<in>
     {trimmed_string (get (get e (js ''error'')) (js ''message'')),
      trimmed_string (get e (js ''message'')), fallback_message}"
  by (simp add: normalizeOpenAIError_def Let_def nested_message fallback_message_nonempty)




lemma restyle_unusable_output_falls_back:
  assumes "FirstResponse \<in> set (snd (POST env up req))"
    and "first_response up = Returns (Some t)"
    and "JSON_parse env [] = None"
    and "JSON_parse env t = Some parsed"
    and "transformResponseSchema parsed = Inr validated"
    and "rewrite_response up = Returns out"
    and "out = None \<or> out = Some [] \<or>
         (\<exists>t'. out = Some t' \<and>
            (JSON_parse env t' = None \<or>
             (\<exists>p'. JSON_parse env t' = Some p' \<and> \<not> has_required_fields p')))"
  shows "fst (POST env up req) = Inr (deliver validated (request_notes req))"
proof -
  from assms(3,4) have ne: "t \<noteq> []" by auto
  from assms(1) have "FirstResponse \<in> set (snd (POST_try env up req))" by (simp add: snd_POST)
  then obtain pre where
    p: "POST_try env up req =
       (fst (after_model env up (request_notes req) (Some t)),
        pre @ snd (after_model env up (request_notes req) (Some t)))"
    using assms(2) by (rule first_pass_returned)
  have "rewrite_pass env up validated = Inr validated"
    using assms(6,7) by (rule restyle_output_unusable)
  then have "fst (after_model env up (request_notes req) (Some t)) =
      Inr (deliver validated (request_notes req))"
    by (simp add: validated_first_pass [OF ne assms(4,5)])
  with p show ?thesis by (simp add: POST_def)
qed

lemma text_schema_accepts_iff:
  "accepted (text_schema m (JStr s)) \<longleftrightarrow> 1 \<le> length s \<and> length s \<le> m"
  by (cases s) (auto simp: text_schema_def Let_def)

lemma text_only_body:
  "transformRequestSchema m (JObj [(js ''text'', JStr s)]) =
     (if length s < 1 then Inl [too_small]
      else if length s > m then Inl [too_big]
      else Inr (s, None))"
  by (simp add: transformRequestSchema_def get_def text_schema_def notes_schema_def Let_def)
    (simp add: js_def)

lemma text_only_request:
  assumes "OPENAI_API_KEY env = Some k" and "k \<noteq> []"
    and "\<not> includes_str (case content_type req of None \<Rightarrow> [] | Some c \<Rightarrow> c)
             (js ''multipart/form-data'')"
    and "json req = Some (JObj [(js ''text'', JStr s)])"
  shows "(length s = 0 \<longrightarrow>
            POST env up req = (Inr (Response 400 (ErrorBody (js ''Invalid request format'')) None), []))
       \<and> (length s > MAX_INPUT_CHARS env \<longrightarrow>
            POST env up req =
              (Inr (Response 413
                 (ErrorBody (js ''Input text is too large. Maximum is '' @
                             toLocaleString env (MAX_INPUT_CHARS env) @ js '' characters.''))
                 None), []))
       \<and> (1 \<le> length s \<and> length s \<le> MAX_INPUT_CHARS env \<longrightarrow>
            take 1 (snd (POST env up req)) = [FirstResponse])"
proof -
  have key: "\<not> (case OPENAI_API_KEY env of None \<Rightarrow> True | Some k \<Rightarrow> k = [])"
    using assms(1,2) by simp
  have ok: "\<exists>st. json_branch env up req = (st, [FirstResponse])"
    if "1 \<le> length s \<and> length s \<le> MAX_INPUT_CHARS env"
    using that assms(4) by (auto simp: json_branch_def text_only_body split: outcome.splits)
  show ?thesis
  proof (intro conjI impI)
    assume "length s = 0"
    then show "POST env up req =
        (Inr (Response 400 (ErrorBody (js ''Invalid request format'')) None), [])"
      using assms by (simp add: POST_def POST_try_def json_branch_def text_only_body)
  next
    assume "length s > MAX_INPUT_CHARS env"
    moreover from this have "s \<noteq> []" by auto
    ultimately show "POST env up req =
              (Inr (Response 413
                 (ErrorBody (js ''Input text is too large. Maximum is '' @
                             toLocaleString env (MAX_INPUT_CHARS env) @ js '' characters.''))
                 None), [])"
      using assms by (simp add: POST_def POST_try_def json_branch_def text_only_body)
  next
    assume "1 \<le> length s \<and> length s \<le> MAX_INPUT_CHARS env"
    from ok [OF this] obtain st where "json_branch env up req = (st, [FirstResponse])" by blast
    then have "(if includes_str (case content_type req of None \<Rightarrow> [] | Some c \<Rightarrow> c)
               (js ''multipart/form-data'')
          then multipart_branch env up req else json_branch env up req) = (st, [FirstResponse])"
      using assms(3) by simp
    from POST_try_unfold [OF key this]
    have "take 1 (snd (POST_try env up req)) = [FirstResponse]"
      by (auto split: step.splits prod.splits)
    then show "take 1 (snd (POST env up req)) = [FirstResponse]" by (simp add: snd_POST)
  qed
qed

section \<open>The concrete runtime evaluated\<close>

lemma json_content_type [simp]:
  "includes_str (js ''application/json'') (js ''multipart/form-data'') = False"
  by (simp add: js_def)

lemma multipart_content_type [simp]:
  "includes_str (js ''multipart/form-data; boundary=x'') (js ''multipart/form-data'') = True"
  by (simp add: js_def)

lemma sample_parsed_validates: "transformResponseSchema sample_parsed = Inr sample_validated"
  by (simp add: transformResponseSchema_def sample_parsed_def sample_validated_def get_def js_def
      z_string_def z_array_def next_action_schema_def)

lemma empty_object_rejected:
  "transformResponseSchema (JObj []) = Inl [invalid_type, invalid_type, invalid_type, invalid_type]"
  by (simp add: transformResponseSchema_def get_def z_string_def z_array_def)

lemma sample_JSON_parse_simps [simp]:
  "sample_JSON_parse sample_text = Some sample_parsed"
  "sample_JSON_parse extra_text = Some extra_parsed"
  "sample_JSON_parse (js ''{}'') = Some (JObj [])"
  "sample_JSON_parse [] = None"
  by (simp_all add: sample_JSON_parse_def sample_text_def extra_text_def js_def)

lemma sample_text_nonempty [simp]: "sample_text \<noteq> []"
  by (simp add: sample_text_def js_def)

lemma sample_env_simps [simp]:
  "OPENAI_API_KEY sample_env = Some (js ''sk-test'')"
  "MAX_INPUT_CHARS sample_env = 100000"
  "MAX_FILE_BYTES sample_env = 10485760"
  "toLocaleString sample_env = en_US"
  "JSON_parse sample_env = sample_JSON_parse"
  by (simp_all add: sample_env_def)

lemma key_nonempty [simp]: "js ''sk-test'' \<noteq> []"
  by (simp add: js_def)

lemma en_US_limits:
  "en_US 100000 = js ''100,000''"
  "en_US 10485760 = js ''10,485,760''"
  by (simp_all add: en_US_def js_def decimal.simps)

lemma poem_not_blank: "\<not> blank (js ''as a poem'')"
  by (simp add: blank_def js_def is_ws_def)

lemma sanitized_sample:
  "sanitized sample_validated =
     sample_validated\<lparr>next_actions := [\<lparr>action = js ''Review'', first_step = js ''Email''\<rparr>]\<rparr>"
  by (simp add: sanitized_def trim_empty_iff sample_validated_def blank_def js_def is_ws_def)

lemma normalize_rate_limited:
  "normalizeOpenAIError rate_limited = (429, js ''Rate limit reached'')"
  by (simp add: normalizeOpenAIError_def rate_limited_def falsy_def typeof_object_def get_def
      js_def trimmed_string_def trim_def is_ws_def Let_def)

lemma length_long_notes [simp]: "length long_notes = 10001"
  by (simp add: long_notes_def)

lemma sample_body_parses:
  "transformRequestSchema 100000 sample_body = Inr (js ''hello'', Some (js ''as a poem''))"
  by (simp add: transformRequestSchema_def sample_body_def get_def text_schema_def notes_schema_def
      js_def)

lemma sample_restyle_throws:
  "POST sample_env (sample_upstream\<lparr>rewrite_response := Throws rate_limited\<rparr>)
        (json_request sample_body)
     = (Inr (Response 429 (ErrorBody (js ''Rate limit reached'')) None),
        [FirstResponse, RewriteResponse])"
  by (simp add: POST_defs json_request_def sample_body_parses sample_upstream_def
      sample_parsed_validates shouldApply_iff poem_not_blank normalize_rate_limited
      NextResponse_json_def)

lemma sample_restyle_invalid:
  "POST sample_env sample_upstream (json_request sample_body)
     = (Inr (Response 200 (OkBody (sanitized sample_validated)) (Some 9)),
        [FirstResponse, RewriteResponse])"
  by (simp add: POST_defs json_request_def sample_body_parses sample_upstream_def
      sample_parsed_validates shouldApply_iff poem_not_blank empty_object_rejected deliver_def)
    (simp add: js_def)

lemma sample_first_empty_object:
  "POST sample_env (sample_upstream\<lparr>first_response := Returns (Some (js ''{}''))\<rparr>)
     (json_request sample_body)
   = (Inr (Response 502
        (ErrorBody (js ''Model returned an unexpected response shape. Please try again.''))
        None), [FirstResponse])"
  by (simp add: POST_defs json_request_def sample_body_parses sample_upstream_def
      empty_object_rejected)
    (simp add: js_def)





lemma sample_threw: "threw (sample_upstream\<lparr>rewrite_response := Throws rate_limited\<rparr>) RewriteResponse = Some rate_limited"
  by (simp add: threw_def)

lemma rate_limited_status: "get rate_limited (js ''status'') = JNum 429"
  by (simp add: get_def rate_limited_def js_def)

lemma hello_body_parses: "transformRequestSchema 100000 hello_body = Inr (js ''hello'', None)"
  by (simp add: hello_body_def text_only_body) (simp add: js_def)


lemma extra_parsed_validates: "transformResponseSchema extra_parsed = Inr extra_validated"
  by (simp add: transformResponseSchema_def extra_parsed_def extra_validated_def get_def js_def
      z_string_def z_array_def)

lemma extra_text_nonempty [simp]: "extra_text \<noteq> []"
  by (simp add: extra_text_def js_def)

lemma extra_parsed_not_exact: "\<not> conforms_exactly extra_parsed"
proof
  assume "conforms_exactly extra_parsed"
  then have "keys_exactly extra_parsed
      [js ''title'', js ''summary'', js ''sections'', js ''next_actions'']"
    by (simp add: conforms_exactly_def)
  then have "js ''debug'' \<in> set [js ''title'', js ''summary'', js ''sections'', js ''next_actions'']"
    unfolding extra_parsed_def by (rule keys_exactly_member [where x = "JBool True"]) simp
  then show False by (simp add: js_def)
qed

lemma sample_extra_property:
  "POST sample_env (sample_upstream\<lparr>first_response := Returns (Some extra_text)\<rparr>)
     (json_request hello_body)
   = (Inr (Response 200 (OkBody extra_validated) (Some 0)), [FirstResponse])"
  by (simp add: POST_defs json_request_def hello_body_parses sample_upstream_def
      extra_parsed_validates shouldApplyNotesRewritePass_def deliver_def sanitized_def
      extra_validated_def)


lemma sample_first_throws:
  "POST sample_env (sample_upstream\<lparr>first_response := Throws rate_limited\<rparr>)
     (json_request sample_body)
   = (Inr (Response 429 (ErrorBody (js ''Rate limit reached'')) None), [FirstResponse])"
  by (simp add: POST_defs json_request_def sample_body_parses sample_upstream_def
      normalize_rate_limited NextResponse_json_def)

lemma normalize_not_modified:
  "normalizeOpenAIError not_modified = (304, js ''Not Modified'')"
  by (simp add: normalizeOpenAIError_def not_modified_def falsy_def typeof_object_def get_def
      js_def trimmed_string_def trim_def is_ws_def Let_def)

lemma not_modified_status: "get not_modified (js ''status'') = JNum 304"
  by (simp add: get_def not_modified_def js_def)

lemma sample_first_not_modified:
  "POST sample_env (sample_upstream\<lparr>first_response := Throws not_modified\<rparr>)
     (json_request hello_body)
   = (Inl TypeError, [FirstResponse])"
  by (simp add: POST_defs json_request_def hello_body_parses sample_upstream_def
      normalize_not_modified NextResponse_json_def)

section \<open>The claims\<close>

subsection \<open>C1: fallback when the restyle pass fails\<close>

text \<open>
  C1. When notes are present and the restyle pass fails in any way, the delivered response
  is the first pass's validated and sanitised result. The handler falls back when the restyle
  call returns no text or text that does not parse or validate (\<open>restyle_unusable_output_falls_back\<close>
  above, and the second equation below), but the restyle call itself is awaited outside the
  inner \<open>try\<close>: when the provider rejects that call, the outer \<open>catch\<close> answers with the
  provider's error and the valid first answer is lost. Here the first pass returns a valid
  document and the restyle call is rate limited.
\<close>

theorem restyle_call_failure_discards_first_pass:
  "POST sample_env (sample_upstream\<lparr>rewrite_response := Throws rate_limited\<rparr>)
        (json_request sample_body)
     = (Inr (Response 429 (ErrorBody (js ''Rate limit reached'')) None),
        [FirstResponse, RewriteResponse])
   \<and> POST sample_env sample_upstream (json_request sample_body)
     = (Inr (Response 200 (OkBody (sanitized sample_validated)) (Some 9)),
        [FirstResponse, RewriteResponse])"
  by (simp add: sample_restyle_throws sample_restyle_invalid)

subsection \<open>C2: validation of the JSON body\<close>

text \<open>
  C2. A JSON body is answered 413 only when \<open>text\<close> exceeds the ceiling, and 400 on every
  other shape violation. For \<open>text\<close> alone the handler does this (\<open>text_only_request\<close>
  above), but it takes any \<open>too_big\<close> issue for an oversize text: a body whose one-character
  \<open>text\<close> is valid and whose \<open>notes\<close> have 10,001 characters is answered 413 with the
  message about the text limit.
\<close>

theorem long_notes_answered_as_oversize_text:
  "POST sample_env sample_upstream
     (json_request (JObj [(js ''text'', JStr (js ''a'')), (js ''notes'', JStr long_notes)]))
   = (Inr (Response 413 (ErrorBody (js ''Input text is too large. Maximum is 100,000 characters.''))
        None), [])"
  by (simp add: POST_defs json_request_def transformRequestSchema_def get_def text_schema_def
      notes_schema_def en_US_limits)
    (simp add: js_def)

subsection \<open>C3: schema-violating model output\<close>

text \<open>
  C3 as stated fails: an output that has every required field and one property the shape does
  not have parses as JSON and does not conform exactly, yet it is delivered as a success, the
  extra property dropped.
\<close>

theorem extra_property_is_delivered:
  "JSON_parse sample_env extra_text = Some extra_parsed
   \<and> \<not> conforms_exactly extra_parsed
   \<and> POST sample_env (sample_upstream\<lparr>first_response := Returns (Some extra_text)\<rparr>)
        (json_request hello_body)
      = (Inr (Response 200 (OkBody extra_validated) (Some 0)), [FirstResponse])"
  by (simp add: extra_parsed_not_exact sample_extra_property)

text \<open>
  C3, amended. Whenever the first call to the model was made and returned text that parses
  as JSON but lacks a required field of the TransformResponse shape, or has one of the wrong
  type or nesting, the response is 502 with the \<open>{error: string}\<close> body, never a success.
  Properties beside the required ones are no violation. (\<open>JSON.parse\<close> throws on the empty
  string.)
\<close>

theorem schema_violation_is_502:
  assumes "FirstResponse \<in> set (snd (POST env up req))"
    and "first_response up = Returns (Some t)"
    and "JSON_parse env [] = None"
    and "JSON_parse env t = Some parsed"
    and "\<not> has_required_fields parsed"
  shows "fst (POST env up req) =
           Inr (Response 502
             (ErrorBody (js ''Model returned an unexpected response shape. Please try again.''))
             None)"
proof -
  from assms(5) obtain issues where rej: "transformResponseSchema parsed = Inl issues"
    by (cases "transformResponseSchema parsed") (simp_all flip: transformResponseSchema_conforms)
  from assms(3,4) have ne: "t \<noteq> []" by auto
  from assms(1) have "FirstResponse \<in> set (snd (POST_try env up req))" by (simp add: snd_POST)
  then obtain pre where
    "POST_try env up req =
       (fst (after_model env up (request_notes req) (Some t)),
        pre @ snd (after_model env up (request_notes req) (Some t)))"
    using assms(2) by (rule first_pass_returned)
  moreover have "fst (after_model env up (request_notes req) (Some t)) = Inl (ZodError issues)"
    by (simp add: after_model_def ne assms(4) rej)
  ultimately show ?thesis by (simp add: POST_def)
qed

text \<open>
  Witness for C3: the model answers \<open>{}\<close>, which parses and lacks every required field.
\<close>

theorem schema_violation_is_502_witness:
  "FirstResponse \<in> set (snd (POST sample_env
       (sample_upstream\<lparr>first_response := Returns (Some (js ''{}''))\<rparr>) (json_request sample_body)))
   \<and> JSON_parse sample_env [] = None
   \<and> JSON_parse sample_env (js ''{}'') = Some (JObj [])
   \<and> \<not> has_required_fields (JObj [])
   \<and> fst (POST sample_env
       (sample_upstream\<lparr>first_response := Returns (Some (js ''{}''))\<rparr>) (json_request sample_body))
     = Inr (Response 502
         (ErrorBody (js ''Model returned an unexpected response shape. Please try again.''))
         None)"
proof -
  let ?up = "sample_upstream\<lparr>first_response := Returns (Some (js ''{}''))\<rparr>"
  have h1: "FirstResponse \<in> set (snd (POST sample_env ?up (json_request sample_body)))"
    by (simp add: sample_first_empty_object)
  have h2: "first_response ?up = Returns (Some (js ''{}''))" by simp
  have h3: "JSON_parse sample_env [] = None" by simp
  have h4: "JSON_parse sample_env (js ''{}'') = Some (JObj [])" by simp
  have h5: "\<not> has_required_fields (JObj [])"
    by (simp add: has_required_fields_def get_def is_string_def)
  from schema_violation_is_502 [OF h1 h2 h3 h4 h5] h1 h3 h4 h5 show ?thesis by simp
qed

subsection \<open>C4: oversize files\<close>

text \<open>
  C4 as stated fails: the rejection message states the configured limit only. For a file of
  20,000,000 bytes against the default limit the message is the one below, the digits of
  the file's size do not occur in it, and a file of 30,000,000 bytes gets the same response.
\<close>

theorem oversize_message_omits_actual_size:
  "POST sample_env sample_upstream
     (multipart_request \<lparr>form_file = Some (FormFile (sample_file\<lparr>file_size := 20000000\<rparr>)),
                          form_notes = None\<rparr>)
   = (Inr (Response 413 (ErrorBody (js ''File is too large. Maximum is 10,485,760 bytes.'')) None), [])
   \<and> \<not> reports_number (js ''File is too large. Maximum is 10,485,760 bytes.'') 20000000
   \<and> POST sample_env sample_upstream
     (multipart_request \<lparr>form_file = Some (FormFile (sample_file\<lparr>file_size := 30000000\<rparr>)),
                          form_notes = None\<rparr>)
   = POST sample_env sample_upstream
     (multipart_request \<lparr>form_file = Some (FormFile (sample_file\<lparr>file_size := 20000000\<rparr>)),
                          form_notes = None\<rparr>)"
  by (simp add: POST_defs multipart_request_def sample_file_def en_US_limits reports_number_def
      digits_in_def decimal.simps)
    (simp add: js_def)

text \<open>
  C4, amended. For a multipart request that reaches the size check (key configured, form
  decoded, notes absent or at most 10,000 characters, a file in the \<open>file\<close> field): a file
  larger than \<open>MAX_FILE_BYTES\<close> is answered 413 with a message stating the configured limit,
  before any provider call; a file of at most \<open>MAX_FILE_BYTES\<close> passes, and the upload to the
  provider is the next thing that happens.
\<close>

theorem oversize_file_rejected_with_limit:
  assumes "OPENAI_API_KEY env = Some k" and "k \<noteq> []"
    and "content_type req = Some ct" and "includes_str ct (js ''multipart/form-data'')"
    and "formData req = Returns f"
    and "\<forall>n. form_notes f = Some (FormString n) \<longrightarrow> length n \<le> 10000"
    and "form_file f = Some (FormFile file)"
  shows "(file_size file > MAX_FILE_BYTES env \<longrightarrow>
           POST env up req =
             (Inr (Response 413
                (ErrorBody (js ''File is too large. Maximum is '' @
                            toLocaleString env (MAX_FILE_BYTES env) @ js '' bytes.''))
                None), []))
       \<and> (file_size file \<le> MAX_FILE_BYTES env \<longrightarrow>
           take 1 (snd (POST env up req)) = [FilesCreate])"
proof -
  have notes_ok: "\<exists>ns. (case form_notes f of
                 Some (FormString notesValue) \<Rightarrow>
                   transformFileNotesSchema (JObj [(js ''notes'', JStr notesValue)])
               | _ \<Rightarrow> Inr None) = Inr ns"
    using assms(6)
    by (auto simp: transformFileNotesSchema_def get_def notes_schema_def
        split: option.splits form_value.splits)
  then obtain ns where ns: "(case form_notes f of
                 Some (FormString notesValue) \<Rightarrow>
                   transformFileNotesSchema (JObj [(js ''notes'', JStr notesValue)])
               | _ \<Rightarrow> Inr None) = Inr ns" by blast
  have big: "multipart_branch env up req =
      (Return (Response 413
                (ErrorBody (js ''File is too large. Maximum is '' @
                            toLocaleString env (MAX_FILE_BYTES env) @ js '' bytes.''))
                None), [])" if "file_size file > MAX_FILE_BYTES env"
    using that assms(5,7) ns by (simp add: multipart_branch_def)
  have small: "\<exists>st rest. multipart_branch env up req = (st, FilesCreate # rest) \<and>
                 (\<forall>r. st \<noteq> Return r)"
    if "file_size file \<le> MAX_FILE_BYTES env"
    using that assms(5,7) ns by (auto simp: multipart_branch_def split: outcome.splits)
  have key: "\<not> (case OPENAI_API_KEY env of None \<Rightarrow> True | Some k \<Rightarrow> k = [])"
    using assms(1,2) by simp
  show ?thesis
  proof (intro conjI impI)
    assume "file_size file > MAX_FILE_BYTES env"
    from big [OF this] show "POST env up req =
             (Inr (Response 413
                (ErrorBody (js ''File is too large. Maximum is '' @
                            toLocaleString env (MAX_FILE_BYTES env) @ js '' bytes.''))
                None), [])"
      using assms(1-4) by (simp add: POST_def POST_try_def)
  next
    assume "file_size file \<le> MAX_FILE_BYTES env"
    from small [OF this] obtain st rest where
      b: "multipart_branch env up req = (st, FilesCreate # rest)" by blast
    have "(if includes_str (case content_type req of None \<Rightarrow> [] | Some c \<Rightarrow> c)
               (js ''multipart/form-data'')
          then multipart_branch env up req else json_branch env up req) = (st, FilesCreate # rest)"
      using assms(3,4) b by simp
    from POST_try_unfold [OF key this]
    have "take 1 (snd (POST_try env up req)) = [FilesCreate]"
      by (auto split: step.splits prod.splits)
    then show "take 1 (snd (POST env up req)) = [FilesCreate]" by (simp add: snd_POST)
  qed
qed

text \<open>
  Witness for C4: a file of 20,000,000 bytes and one of 2,048 bytes under the default limit.
\<close>

theorem oversize_file_rejected_with_limit_witness:
  "OPENAI_API_KEY sample_env = Some (js ''sk-test'') \<and> js ''sk-test'' \<noteq> []
   \<and> includes_str (js ''multipart/form-data; boundary=x'') (js ''multipart/form-data'')
   \<and> POST sample_env sample_upstream
        (multipart_request \<lparr>form_file = Some (FormFile (sample_file\<lparr>file_size := 20000000\<rparr>)),
                             form_notes = None\<rparr>)
      = (Inr (Response 413 (ErrorBody (js ''File is too large. Maximum is 10,485,760 bytes.'')) None), [])
   \<and> take 1 (snd (POST sample_env sample_upstream
        (multipart_request \<lparr>form_file = Some (FormFile sample_file), form_notes = None\<rparr>)))
      = [FilesCreate]"
proof -
  let ?big = "\<lparr>form_file = Some (FormFile (sample_file\<lparr>file_size := 20000000\<rparr>)),
               form_notes = None\<rparr>"
  let ?small = "\<lparr>form_file = Some (FormFile sample_file), form_notes = None\<rparr>"
  have k: "OPENAI_API_KEY sample_env = Some (js ''sk-test'')" "js ''sk-test'' \<noteq> []" by simp_all
  have ct: "\<And>f. content_type (multipart_request f) = Some (js ''multipart/form-data; boundary=x'')"
    by (simp add: multipart_request_def)
  have inc: "includes_str (js ''multipart/form-data; boundary=x'') (js ''multipart/form-data'')"
    by simp
  have fd: "\<And>f. formData (multipart_request f) = Returns f" by (simp add: multipart_request_def)
  have msg: "js ''File is too large. Maximum is '' @ en_US 10485760 @ js '' bytes.''
             = js ''File is too large. Maximum is 10,485,760 bytes.''"
    by (simp add: en_US_limits) (simp add: js_def)
  have big: "file_size (sample_file\<lparr>file_size := 20000000\<rparr>) > MAX_FILE_BYTES sample_env" by simp
  have small: "file_size sample_file \<le> MAX_FILE_BYTES sample_env" by (simp add: sample_file_def)
  from oversize_file_rejected_with_limit [OF k ct inc fd, of ?big "sample_file\<lparr>file_size := 20000000\<rparr>" sample_upstream]
       oversize_file_rejected_with_limit [OF k ct inc fd, of ?small sample_file sample_upstream]
       big small k inc
  show ?thesis by (simp add: msg)
qed

subsection \<open>C5: over-long notes in a multipart request\<close>

text \<open>
  C5. Multipart notes longer than 10,000 characters are a client validation error (400).
  The handler validates them inside the outer \<open>try\<close>, whose \<open>catch\<close> reads every
  \<open>ZodError\<close> as a fault of the model: the request is answered 502 with the message about
  the model's response shape, before any provider call.
\<close>

theorem long_multipart_notes_answered_as_model_fault:
  "POST sample_env sample_upstream
     (multipart_request \<lparr>form_file = Some (FormFile sample_file),
                          form_notes = Some (FormString long_notes)\<rparr>)
   = (Inr (Response 502
        (ErrorBody (js ''Model returned an unexpected response shape. Please try again.''))
        None), [])"
  by (simp add: POST_defs multipart_request_def transformFileNotesSchema_def get_def
      notes_schema_def)

subsection \<open>C6: the sanitiser drops blank next actions\<close>

text \<open>
  C6. The sanitiser keeps exactly the \<open>next_actions\<close> entries whose \<open>action\<close> and
  \<open>first_step\<close> are both non-blank, in their original order; so every entry of a delivered
  response has non-blank \<open>action\<close> and \<open>first_step\<close>.
\<close>

theorem sanitizer_drops_blank_actions:
  "next_actions (sanitized v) =
     filter (\<lambda>a. \<not> (blank (action a) \<or> blank (first_step a))) (next_actions v)
   \<and> subseq (next_actions (sanitized v)) (next_actions v)
   \<and> (\<forall>a \<in> set (next_actions (sanitized v)). \<not> blank (action a) \<and> \<not> blank (first_step a))
   \<and> (fst (POST env up req) = Inr (Response s (OkBody r) h) \<longrightarrow>
        (\<forall>a \<in> set (next_actions r). \<not> blank (action a) \<and> \<not> blank (first_step a)))"
proof -
  have "\<forall>a \<in> set (next_actions r). \<not> blank (action a) \<and> \<not> blank (first_step a)"
    if "fst (POST env up req) = Inr (Response s (OkBody r) h)"
  proof -
    from POST_delivers [OF that] obtain validated where "r = sanitized validated" by blast
    then show ?thesis by (simp add: sanitized_next_actions)
  qed
  then show ?thesis by (simp add: sanitized_next_actions)
qed

text \<open>
  Witness for C6: of the two sample actions, the one with a blank first step is dropped.
\<close>

theorem sanitizer_drops_blank_actions_witness:
  "fst (POST sample_env sample_upstream (json_request sample_body))
     = Inr (Response 200 (OkBody (sanitized sample_validated)) (Some 9))
   \<and> next_actions (sanitized sample_validated)
     = [\<lparr>action = js ''Review'', first_step = js ''Email''\<rparr>]
   \<and> list_all (\<lambda>a. \<not> blank (action a) \<and> \<not> blank (first_step a))
         (next_actions (sanitized sample_validated))"
proof -
  have b: "fst (POST sample_env sample_upstream (json_request sample_body))
     = Inr (Response 200 (OkBody (sanitized sample_validated)) (Some 9))"
    by (simp add: sample_restyle_invalid)
  from sanitizer_drops_blank_actions [of sample_validated sample_env sample_upstream
      "json_request sample_body" 200 "sanitized sample_validated" "Some 9"] b
  show ?thesis by (simp add: sanitized_sample list_all_iff)
qed

subsection \<open>C7: sanitising is idempotent\<close>

text \<open>
  C7. Sanitising twice gives the same result as sanitising once.
\<close>

theorem sanitizer_idempotent: "sanitized (sanitized v) = sanitized v"
  by (simp add: sanitized_def)

subsection \<open>C8: provider failures\<close>

text \<open>
  C8 as stated fails: the status of the thrown value is handed to \<open>NextResponse.json\<close>
  unchecked. When the first model call fails with status 304, constructing the response throws
  inside the \<open>catch\<close> block and the handler returns no \<open>{error: string}\<close> body at all.
\<close>

theorem unsendable_status_leaves_no_response:
  "threw (sample_upstream\<lparr>first_response := Throws not_modified\<rparr>) FirstResponse
     = Some not_modified
   \<and> get not_modified (js ''status'') = JNum 304
   \<and> POST sample_env (sample_upstream\<lparr>first_response := Throws not_modified\<rparr>)
        (json_request hello_body)
      = (Inl TypeError, [FirstResponse])"
  by (simp add: threw_def not_modified_status sample_first_not_modified)

text \<open>
  C8, amended. When the file upload or the first model call was made and throws, and the
  status of the thrown value (its numeric \<open>status\<close>, 500 when it has none) is one a response
  with a body may carry (200..599 and none of 204, 205, 304), the client receives that status
  and an \<open>{error: string}\<close> body with a non-empty message, which is the trimmed message of the
  provider's error payload, the trimmed message of the error itself, or the fixed fallback
  text. Nothing else of the thrown value is sent. A failing restyle call is the subject of C1.
\<close>

theorem provider_failure_response:
  assumes "c \<in> set (snd (POST env up req))" and "c \<noteq> RewriteResponse"
    and "threw up c = Some e"
    and "st = (case get e (js ''status'') of JNum n \<Rightarrow> n | _ \<Rightarrow> 500)"
    and "200 \<le> st" and "st \<le> 599" and "st \<noteq> 204" and "st \<noteq> 205" and "st \<noteq> 304"
  shows "\<exists>m. fst (POST env up req) = Inr (Response st (ErrorBody m) None)
           \<and> m \<noteq> []
           \<and> m \<in> {trimmed_string (get (get e (js ''error'')) (js ''message'')),
                  trimmed_string (get e (js ''message'')), fallback_message}"
proof -
  have "fst (POST_try env up req) = Inl (Thrown e)"
    using assms(1,3) thrown_reaches_catch snd_POST by metis
  then have "fst (POST env up req) =
      NextResponse_json (ErrorBody (snd (normalizeOpenAIError e))) (fst (normalizeOpenAIError e))
        None"
    by (cases "POST_try env up req") (simp add: POST_def Let_def)
  moreover have "fst (normalizeOpenAIError e) = st"
    using assms(4) by (simp add: normalize_status)
  ultimately have "fst (POST env up req) =
      Inr (Response st (ErrorBody (snd (normalizeOpenAIError e))) None)"
    using assms(5-9) by (simp add: NextResponse_json_def)
  then show ?thesis using normalize_message [of e] by auto
qed

text \<open>
  Witness for C8: the first model call is rate limited with status 429.
\<close>

theorem provider_failure_response_witness:
  "FirstResponse \<in> set (snd (POST sample_env
       (sample_upstream\<lparr>first_response := Throws rate_limited\<rparr>) (json_request sample_body)))
   \<and> FirstResponse \<noteq> RewriteResponse
   \<and> threw (sample_upstream\<lparr>first_response := Throws rate_limited\<rparr>) FirstResponse
       = Some rate_limited
   \<and> get rate_limited (js ''status'') = JNum 429
   \<and> (\<exists>m. fst (POST sample_env
       (sample_upstream\<lparr>first_response := Throws rate_limited\<rparr>) (json_request sample_body))
      = Inr (Response 429 (ErrorBody m) None) \<and> m \<noteq> [])"
proof -
  let ?up = "sample_upstream\<lparr>first_response := Throws rate_limited\<rparr>"
  have h1: "FirstResponse \<in> set (snd (POST sample_env ?up (json_request sample_body)))"
    by (simp add: sample_first_throws)
  have h2: "FirstResponse \<noteq> RewriteResponse" by simp
  have h3: "threw ?up FirstResponse = Some rate_limited" by (simp add: threw_def)
  have h4: "(429::int) = (case get rate_limited (js ''status'') of JNum n \<Rightarrow> n | _ \<Rightarrow> 500)"
    by (simp add: rate_limited_status)
  from provider_failure_response [OF h1 h2 h3 h4] h1 h2 h3 show ?thesis
    by (auto simp: rate_limited_status)
qed

subsection \<open>C9: the sanitiser changes nothing else\<close>

text \<open>
  C9. Sanitising leaves \<open>title\<close>, \<open>summary\<close> and \<open>sections\<close> as they are; a delivered
  response carries the \<open>title\<close>, \<open>summary\<close> and \<open>sections\<close> of a validated model output.
\<close>

theorem sanitizer_frame:
  "title (sanitized v) = title v \<and> summary (sanitized v) = summary v
   \<and> sections (sanitized v) = sections v
   \<and> (fst (POST env up req) = Inr (Response s (OkBody r) h) \<longrightarrow>
        (\<exists>t parsed validated.
           (first_response up = Returns (Some t) \<or> rewrite_response up = Returns (Some t)) \<and>
           JSON_parse env t = Some parsed \<and>
           transformResponseSchema parsed = Inr validated \<and>
           title r = title validated \<and> summary r = summary validated \<and>
           sections r = sections validated))"
proof -
  have "\<exists>t parsed validated.
           (first_response up = Returns (Some t) \<or> rewrite_response up = Returns (Some t)) \<and>
           JSON_parse env t = Some parsed \<and>
           transformResponseSchema parsed = Inr validated \<and>
           title r = title validated \<and> summary r = summary validated \<and>
           sections r = sections validated"
    if "fst (POST env up req) = Inr (Response s (OkBody r) h)"
  proof -
    from POST_delivers [OF that] obtain t parsed validated where
      "first_response up = Returns (Some t) \<or> rewrite_response up = Returns (Some t)"
      "JSON_parse env t = Some parsed" "transformResponseSchema parsed = Inr validated"
      "r = sanitized validated" by blast
    then show ?thesis by (auto simp: sanitized_def)
  qed
  then show ?thesis by (simp add: sanitized_def)
qed

text \<open>
  Witness for C9: the sample request, delivered with the sample document's fields.
\<close>

theorem sanitizer_frame_witness:
  "fst (POST sample_env sample_upstream (json_request sample_body))
     = Inr (Response 200 (OkBody (sanitized sample_validated)) (Some 9))
   \<and> title (sanitized sample_validated) = js ''Plan''
   \<and> summary (sanitized sample_validated) = js ''Launch''
   \<and> sections (sanitized sample_validated) = []"
proof -
  have b: "fst (POST sample_env sample_upstream (json_request sample_body))
     = Inr (Response 200 (OkBody (sanitized sample_validated)) (Some 9))"
    by (simp add: sample_restyle_invalid)
  from sanitizer_frame [of sample_validated sample_env sample_upstream
      "json_request sample_body" 200 "sanitized sample_validated" "Some 9"] b
  show ?thesis by (simp add: sample_validated_def)
qed

subsection \<open>C10: when the restyle pass runs\<close>




end
